theory Spec2Isabelle
  imports Main "HOL-Library.Word"
begin

section \<open>Cluster-capacity: the simulation control loop\<close>

text \<open>
  A shallow embedding of \<^verbatim>\<open>pkg/framework/simulator.go\<close> (the type \<^verbatim>\<open>ClusterCapacity\<close> with
  \<^verbatim>\<open>Report\<close>, \<^verbatim>\<open>Bind\<close>, \<^verbatim>\<open>Close\<close>, \<^verbatim>\<open>Update\<close>, \<^verbatim>\<open>nextPod\<close>, \<^verbatim>\<open>Run\<close>, \<^verbatim>\<open>New\<close>) and of the disk cache of
  \<^verbatim>\<open>pkg/cache\<close>.

  Conventions of the model.
  \<^item> A Go \<^verbatim>\<open>error\<close> is only ever formatted with \<^verbatim>\<open>%v\<close> here, so it is its message, a
    \<open>string\<close>; \<open>None\<close> is \<^verbatim>\<open>nil\<close>.
  \<^item> Go's \<^verbatim>\<open>int\<close> (the fields \<^verbatim>\<open>simulated\<close> and \<^verbatim>\<open>maxSimulated\<close>) is 64 bits wide: it is an
    \<open>int\<close> here, and the increment \<^verbatim>\<open>c.simulated++\<close> wraps around as the machine's does
    (\<open>wrap64\<close>). The conversion \<^verbatim>\<open>int32(c.maxSimulated)\<close> of \<^verbatim>\<open>Report\<close> truncates, so
    \<^verbatim>\<open>Replicas\<close> is a \<open>32 word\<close> read with \<open>sint\<close>.
  \<^item> A call of a handler is one step: the calls of a run are made one after the other and
    do not overlap. What a goroutine does when it cannot go on is part of the result: it
    returns, it panics, or it blocks for ever.
\<close>

subsection \<open>Results of a call\<close>

datatype 'a completion = Returned 'a | Panicked string | Blocked

subsection \<open>Channels of \<^verbatim>\<open>struct{}\<close>, unbuffered\<close>

text \<open>
  An unbuffered channel hands a value over only when a sender meets a receiver. The record
  counts the goroutines blocked on either side and the values handed over so far.
\<close>

record chan =
  ch_closed :: bool
  ch_receivers :: nat
  ch_senders :: nat
  ch_delivered :: nat

definition make_chan :: chan where
  "make_chan = \<lparr>ch_closed = False, ch_receivers = 0, ch_senders = 0, ch_delivered = 0\<rparr>"

text \<open>\<^verbatim>\<open>close(ch)\<close>: closing a closed channel panics; closing a channel on which a sender is
  blocked makes that sender panic.\<close>

definition close_chan :: "chan \<Rightarrow> string + chan" where
  "close_chan ch =
     (if ch_closed ch then Inl ''close of closed channel''
      else if 0 < ch_senders ch then Inl ''send on closed channel''
      else Inr (ch\<lparr>ch_closed := True, ch_receivers := 0\<rparr>))"

datatype send_result = Sent chan | SendPanic string | SendBlocked chan

text \<open>\<^verbatim>\<open>ch <- struct{}{}\<close>\<close>

definition send_chan :: "chan \<Rightarrow> send_result" where
  "send_chan ch =
     (if ch_closed ch then SendPanic ''send on closed channel''
      else if 0 < ch_receivers ch
        then Sent (ch\<lparr>ch_receivers := ch_receivers ch - 1, ch_delivered := ch_delivered ch + 1\<rparr>)
      else SendBlocked (ch\<lparr>ch_senders := ch_senders ch + 1\<rparr>))"

text \<open>\<^verbatim>\<open><-ch\<close>: the boolean says whether the receive has completed (a sender was waiting, or
  the channel is closed); otherwise the receiver is now blocked on the channel.\<close>

definition recv_chan :: "chan \<Rightarrow> bool \<times> chan" where
  "recv_chan ch =
     (if ch_closed ch then (True, ch)
      else if 0 < ch_senders ch
        then (True, ch\<lparr>ch_senders := ch_senders ch - 1, ch_delivered := ch_delivered ch + 1\<rparr>)
      else (False, ch\<lparr>ch_receivers := ch_receivers ch + 1\<rparr>))"

subsection \<open>Decimal formatting (\<^verbatim>\<open>%v\<close> of an \<^verbatim>\<open>int\<close>)\<close>

definition digit_char :: "nat \<Rightarrow> char" where
  "digit_char d = char_of (48 + d)"

function show_nat :: "nat \<Rightarrow> string" where
  "show_nat n = (if n < 10 then [digit_char n] else show_nat (n div 10) @ [digit_char (n mod 10)])"
  by pat_completeness auto
termination
  by (relation "measure id") auto

declare show_nat.simps [simp del]

text \<open>Two's complement on 64 bits: the value of a Go \<^verbatim>\<open>int\<close> after an operation whose exact
  result is \<open>x\<close>.\<close>

definition wrap64 :: "int \<Rightarrow> int" where
  "wrap64 x = (x + 2 ^ 63) mod 2 ^ 64 - 2 ^ 63"

definition show_int :: "int \<Rightarrow> string" where
  "show_int i = (if i < 0 then CHR ''-'' # show_nat (nat (- i)) else show_nat (nat i))"

subsection \<open>Pods\<close>

text \<open>Only the fields the simulator reads or writes are named; \<open>Containers\<close> stands for the
  rest of the pod specification, which is copied and never inspected.\<close>

record PodCondition =
  Type :: string
  Status :: string
  Reason :: string
  Message :: string

definition PodScheduled :: string where "PodScheduled = ''PodScheduled''"
definition ConditionFalse :: string where "ConditionFalse = ''False''"
definition PodRunning :: string where "PodRunning = ''Running''"
definition DefaultSchedulerName :: string where "DefaultSchedulerName = ''default-scheduler''"

text \<open>A Go map may be \<^verbatim>\<open>nil\<close>: \<open>None\<close>.\<close>

record ObjectMeta =
  Name :: string
  Namespace :: string
  UID :: string
  Annotations :: "(string \<rightharpoonup> string) option"

record PodSpec =
  NodeName :: string
  SchedulerName :: string
  Containers :: "string list"

record PodStatus =
  Phase :: string
  Conditions :: "PodCondition list"

record Pod =
  ObjectMeta :: ObjectMeta
  Spec :: PodSpec
  Status :: PodStatus

definition podProvisioner :: string where
  "podProvisioner = ''cc.kubernetes.io/provisioned-by''"

text \<open>\<^verbatim>\<open>metav1.HasAnnotation\<close>: the key is present in the map.\<close>

definition HasAnnotation :: "ObjectMeta \<Rightarrow> string \<Rightarrow> bool" where
  "HasAnnotation obj ann = (case Annotations obj of None \<Rightarrow> False | Some m \<Rightarrow> m ann \<noteq> None)"

subsection \<open>The controller's state\<close>

text \<open>\<^verbatim>\<open>type Status struct\<close>: the scheduled pods and the reason why the analysis stopped.\<close>

record RunStatus =
  Pods :: "Pod list"
  StopReason :: string

text \<open>\<^verbatim>\<open>*framework.Status\<close>, the result of a bind plugin: \<open>None\<close> is \<^verbatim>\<open>nil\<close> (success).\<close>

datatype Code = Success | Error

datatype PluginStatus = NewStatus Code string

text \<open>\<^verbatim>\<open>ClusterCapacityReview\<close>: \<^verbatim>\<open>Spec.Replicas\<close> is an \<^verbatim>\<open>int32\<close>; \<open>'r\<close> is everything else that
  \<^verbatim>\<open>GetReport\<close> puts into the review.\<close>

record 'r ClusterCapacityReview =
  Replicas :: "32 word"
  review :: 'r

text \<open>The context that \<^verbatim>\<open>Run\<close> creates for the schedulers' goroutines.\<close>

datatype ctx_state = NoCtx | CtxActive | CtxCancelled

text \<open>
  \<^verbatim>\<open>type ClusterCapacity struct\<close>. The fields \<^verbatim>\<open>strategy\<close>, \<^verbatim>\<open>externalkubeclient\<close> and the
  informer factory are handles to objects outside this file: \<open>world\<close> is the state of
  those objects (the synthetic cluster), of any type \<open>'s\<close>, and the operations on it are
  the interface record below. \<open>stopMux\<close> is \<open>True\<close> while the mutex is held; \<open>ctx\<close> is the
  local variable of \<^verbatim>\<open>Run\<close>.
\<close>

record ('s, 'r) ClusterCapacity =
  world :: 's
  defaultSchedulerName :: string
  simulatedPod :: Pod
  lastSimulatedPod :: "Pod option"
  maxSimulated :: int
  simulated :: int
  status :: RunStatus
  report :: "'r ClusterCapacityReview option"
  informerStopCh :: chan
  schedulerCh :: chan
  stop :: chan
  stopMux :: bool
  stopped :: bool
  closed :: bool
  ctx :: ctx_state

text \<open>
  The operations the controller calls through its interface-typed fields:
  \<^verbatim>\<open>externalkubeclient.CoreV1().Pods(ns).Get(name)\<close>, \<^verbatim>\<open>...Create(pod)\<close>, \<^verbatim>\<open>strategy.Add(pod)\<close>
  and \<^verbatim>\<open>uuid.NewV4().String()\<close>. Each may fail with an error message and may change the
  world.
\<close>

record 's Interfaces =
  Pods_Get :: "string \<Rightarrow> string \<Rightarrow> 's \<Rightarrow> string + Pod"
  Pods_Create :: "Pod \<Rightarrow> 's \<Rightarrow> string option \<times> 's"
  strategy_Add :: "Pod \<Rightarrow> 's \<Rightarrow> string option \<times> 's"
  uuid_NewV4 :: "'s \<Rightarrow> string \<times> 's"

text \<open>\<^verbatim>\<open>New\<close>: the state of a fresh controller over the client \<open>client\<close>.\<close>

definition New :: "Pod \<Rightarrow> int \<Rightarrow> 's \<Rightarrow> ('s, 'r) ClusterCapacity" where
  "New pod maxPods client =
     \<lparr>world = client,
      defaultSchedulerName = DefaultSchedulerName,
      simulatedPod = pod,
      lastSimulatedPod = None,
      maxSimulated = maxPods,
      simulated = 0,
      status = \<lparr>Pods = [], StopReason = []\<rparr>,
      report = None,
      informerStopCh = make_chan,
      schedulerCh = make_chan,
      stop = make_chan,
      stopMux = False,
      stopped = False,
      closed = False,
      ctx = NoCtx\<rparr>"

subsection \<open>\<^verbatim>\<open>Close\<close>\<close>

text \<open>\<^verbatim>\<open>closedMux\<close> is taken on entry and released by the deferred unlock on every way out, so
  the body is one atomic step.\<close>

definition Close :: "('s, 'r) ClusterCapacity \<Rightarrow> unit completion \<times> ('s, 'r) ClusterCapacity" where
  "Close c =
     (if closed c then (Returned (), c)
      else case close_chan (schedulerCh c) of
        Inl p \<Rightarrow> (Panicked p, c)
      | Inr sch \<Rightarrow>
          (case close_chan (informerStopCh c) of
             Inl p \<Rightarrow> (Panicked p, c\<lparr>schedulerCh := sch\<rparr>)
           | Inr ich \<Rightarrow> (Returned (), c\<lparr>schedulerCh := sch, informerStopCh := ich, closed := True\<rparr>)))"

subsection \<open>\<^verbatim>\<open>nextPod\<close>\<close>

definition nextPod ::
  "'s Interfaces \<Rightarrow> ('s, 'r) ClusterCapacity \<Rightarrow> string option \<times> ('s, 'r) ClusterCapacity" where
  "nextPod ifc c =
     (let pod = simulatedPod c;
          pod = pod\<lparr>Spec := (Spec pod)\<lparr>NodeName := []\<rparr>\<rparr>;
          pod = pod\<lparr>ObjectMeta := (ObjectMeta pod)
                  \<lparr>Name := Name (ObjectMeta (simulatedPod c)) @ ''-'' @ show_int (simulated c)\<rparr>\<rparr>;
          (u, w) = uuid_NewV4 ifc (world c);
          pod = pod\<lparr>ObjectMeta := (ObjectMeta pod)\<lparr>UID := u\<rparr>\<rparr>;
          pod = pod\<lparr>Spec := (Spec pod)\<lparr>SchedulerName := defaultSchedulerName c\<rparr>\<rparr>;
          pod = (if Annotations (ObjectMeta pod) = None
                 then pod\<lparr>ObjectMeta := (ObjectMeta pod)\<lparr>Annotations := Some Map.empty\<rparr>\<rparr>
                 else pod);
          pod = pod\<lparr>ObjectMeta := (ObjectMeta pod)
                  \<lparr>Annotations := map_option (\<lambda>m. m(podProvisioner \<mapsto> defaultSchedulerName c))
                                    (Annotations (ObjectMeta pod))\<rparr>\<rparr>;
          c = c\<lparr>world := w, simulated := wrap64 (simulated c + 1), lastSimulatedPod := Some pod\<rparr>;
          (err, w) = Pods_Create ifc pod (world c)
      in (err, c\<lparr>world := w\<rparr>))"

subsection \<open>\<^verbatim>\<open>Update\<close> and the informer's \<^verbatim>\<open>UpdateFunc\<close>\<close>

text \<open>The deferred \<^verbatim>\<open>stopMux.Unlock()\<close> runs when \<^verbatim>\<open>Update\<close> returns or panics, not while it is
  blocked in the send.\<close>

definition Update ::
  "Pod \<Rightarrow> PodCondition \<Rightarrow> string \<Rightarrow> ('s, 'r) ClusterCapacity
     \<Rightarrow> string option completion \<times> ('s, 'r) ClusterCapacity" where
  "Update pod podCondition schedulerName c =
     (let stop_it = (Type podCondition = PodScheduled
                     \<and> PodCondition.Status podCondition = ConditionFalse
                     \<and> Reason podCondition = ''Unschedulable'')
      in if stop_it \<and> HasAnnotation (ObjectMeta pod) podProvisioner then
           (let c = c\<lparr>status := (status c)
                       \<lparr>StopReason := Reason podCondition @ '': '' @ Message podCondition\<rparr>\<rparr>
            in case Close c of
                 (Panicked p, c) \<Rightarrow> (Panicked p, c)
               | (Blocked, c) \<Rightarrow> (Blocked, c)
               | (Returned _, c) \<Rightarrow>
                   if stopMux c then (Blocked, c)
                   else (let c = c\<lparr>stopMux := True\<rparr>;
                             c = c\<lparr>stopped := True\<rparr>
                         in case send_chan (stop c) of
                              SendPanic p \<Rightarrow> (Panicked p, c\<lparr>stopMux := False\<rparr>)
                            | SendBlocked ch \<Rightarrow> (Blocked, c\<lparr>stop := ch\<rparr>)
                            | Sent ch \<Rightarrow> (Returned None, c\<lparr>stop := ch, stopMux := False\<rparr>)))
         else (Returned None, c))"

text \<open>The event handler registered by \<^verbatim>\<open>createScheduler\<close>: the filter keeps the pods of the
  scheduler, and the update function calls \<^verbatim>\<open>Update\<close> for every condition of type
  \<^verbatim>\<open>PodScheduled\<close>, dropping its result. A panic ends the loop (and the process); a call
  that blocks never comes back, so the loop goes no further.\<close>

definition FilterFunc :: "string \<Rightarrow> Pod \<Rightarrow> bool" where
  "FilterFunc schedulerName pod = (SchedulerName (Spec pod) = schedulerName)"

fun UpdateFunc_loop ::
  "Pod \<Rightarrow> string \<Rightarrow> PodCondition list \<Rightarrow> ('s, 'r) ClusterCapacity
     \<Rightarrow> unit completion \<times> ('s, 'r) ClusterCapacity" where
  "UpdateFunc_loop pod schedulerName [] c = (Returned (), c)"
| "UpdateFunc_loop pod schedulerName (podCondition # rest) c =
     (if Type podCondition = PodScheduled then
        (case Update pod podCondition schedulerName c of
           (Returned _, c') \<Rightarrow> UpdateFunc_loop pod schedulerName rest c'
         | (Panicked p, c') \<Rightarrow> (Panicked p, c')
         | (Blocked, c') \<Rightarrow> (Blocked, c'))
      else UpdateFunc_loop pod schedulerName rest c)"

definition UpdateFunc ::
  "string \<Rightarrow> Pod \<Rightarrow> ('s, 'r) ClusterCapacity \<Rightarrow> unit completion \<times> ('s, 'r) ClusterCapacity" where
  "UpdateFunc schedulerName newObj c =
     (if FilterFunc schedulerName newObj
      then UpdateFunc_loop newObj schedulerName (Conditions (Status newObj)) c
      else (Returned (), c))"

subsection \<open>\<^verbatim>\<open>Bind\<close>\<close>

definition Bind ::
  "'s Interfaces \<Rightarrow> Pod \<Rightarrow> string \<Rightarrow> string \<Rightarrow> ('s, 'r) ClusterCapacity
     \<Rightarrow> PluginStatus option completion \<times> ('s, 'r) ClusterCapacity" where
  "Bind ifc p nodeName schedulerName c =
     (case Pods_Get ifc (Namespace (ObjectMeta p)) (Name (ObjectMeta p)) (world c) of
        Inl err \<Rightarrow> (Returned (Some (NewStatus Error (''Unable to bind: '' @ err))), c)
      | Inr pod \<Rightarrow>
          (let updatedPod = pod;
               updatedPod = updatedPod\<lparr>Spec := (Spec updatedPod)\<lparr>NodeName := nodeName\<rparr>\<rparr>;
               updatedPod = updatedPod\<lparr>Status := (Status updatedPod)\<lparr>Phase := PodRunning\<rparr>\<rparr>
           in case strategy_Add ifc updatedPod (world c) of
                (Some err, w) \<Rightarrow>
                  (Returned (Some (NewStatus Error
                     (''Unable to recompute new cluster state: '' @ err))), c\<lparr>world := w\<rparr>)
              | (None, w) \<Rightarrow>
                  (let c = c\<lparr>world := w\<rparr>;
                       c = c\<lparr>status := (status c)\<lparr>Pods := Pods (status c) @ [updatedPod]\<rparr>\<rparr>
                   in if 0 < maxSimulated c \<and> maxSimulated c \<le> simulated c then
                        (let c = c\<lparr>status := (status c)
                                   \<lparr>StopReason := ''LimitReached: Maximum number of pods simulated: ''
                                                    @ show_int (maxSimulated c)\<rparr>\<rparr>
                         in case Close c of
                              (Panicked m, c) \<Rightarrow> (Panicked m, c)
                            | (Blocked, c) \<Rightarrow> (Blocked, c)
                            | (Returned _, c) \<Rightarrow>
                                (case send_chan (stop c) of
                                   SendPanic m \<Rightarrow> (Panicked m, c)
                                 | SendBlocked ch \<Rightarrow> (Blocked, c\<lparr>stop := ch\<rparr>)
                                 | Sent ch \<Rightarrow> (Returned None, c\<lparr>stop := ch\<rparr>)))
                      else (case nextPod ifc c of
                              (Some err, c) \<Rightarrow>
                                (Returned (Some (NewStatus Error
                                   (''Unable to create next pod to schedule: '' @ err))), c)
                            | (None, c) \<Rightarrow> (Returned None, c)))))"

subsection \<open>\<^verbatim>\<open>Run\<close>\<close>

text \<open>
  \<^verbatim>\<open>Run\<close> starts the informers and the schedulers' goroutines, sleeps for 100 ms, creates
  the first pod and then waits on \<^verbatim>\<open>c.stop\<close>. The goroutines call \<^verbatim>\<open>Bind\<close> and the update
  handler on the controller: \<open>before\<close> is everything they do to it between their start and
  the creation of the first pod, \<open>background\<close> everything they do while \<^verbatim>\<open>Run\<close> waits. When
  nothing has been sent on \<^verbatim>\<open>c.stop\<close>, \<^verbatim>\<open>Run\<close> is still blocked. A panic in a goroutine ends
  the process.
\<close>

definition Run ::
  "'s Interfaces \<Rightarrow> (('s, 'r) ClusterCapacity \<Rightarrow> unit completion \<times> ('s, 'r) ClusterCapacity)
     \<Rightarrow> (('s, 'r) ClusterCapacity \<Rightarrow> unit completion \<times> ('s, 'r) ClusterCapacity)
     \<Rightarrow> ('s, 'r) ClusterCapacity \<Rightarrow> string option completion \<times> ('s, 'r) ClusterCapacity" where
  "Run ifc before background c =
     (let c = c\<lparr>ctx := CtxActive\<rparr>
      in case before c of
           (Panicked m, c) \<Rightarrow> (Panicked m, c)
         | (_, c) \<Rightarrow>
        (case nextPod ifc c of
           (Some err, c) \<Rightarrow>
             (let c = c\<lparr>ctx := CtxCancelled\<rparr>
              in case Close c of
                   (Panicked m, c) \<Rightarrow> (Panicked m, c)
                 | (Blocked, c) \<Rightarrow> (Blocked, c)
                 | (Returned _, c) \<Rightarrow>
                     (case close_chan (stop c) of
                        Inl m \<Rightarrow> (Panicked m, c)
                      | Inr ch \<Rightarrow>
                          (Returned (Some (''Unable to create next pod to schedule: '' @ err)),
                           c\<lparr>stop := ch\<rparr>)))
         | (None, c) \<Rightarrow>
             (let (received, ch) = recv_chan (stop c);
                  c = c\<lparr>stop := ch\<rparr>;
                  (bg, c) = (if received then (Returned (), c) else background c)
              in case bg of
                   Panicked m \<Rightarrow> (Panicked m, c)
                 | _ \<Rightarrow>
                     if received \<or> ch_receivers (stop c) = 0 then
                       (let c = c\<lparr>ctx := CtxCancelled\<rparr>
                        in case close_chan (stop c) of
                             Inl m \<Rightarrow> (Panicked m, c)
                           | Inr ch \<Rightarrow> (Returned None, c\<lparr>stop := ch\<rparr>))
                     else (Blocked, c))))"

text \<open>
  A sequence of calls that the schedulers and the informer make, each call one step: a
  bind of a pod to a node, or the delivery of an updated pod to the update handler. Every
  call is made; a panic ends the sequence.
\<close>

datatype event = BindEv Pod string | PodUpdateEv Pod

fun engine ::
  "'s Interfaces \<Rightarrow> string \<Rightarrow> event list \<Rightarrow> ('s, 'r) ClusterCapacity
     \<Rightarrow> unit completion \<times> ('s, 'r) ClusterCapacity" where
  "engine ifc schedulerName [] c = (Returned (), c)"
| "engine ifc schedulerName (BindEv p nodeName # evs) c =
     (case Bind ifc p nodeName schedulerName c of
        (Panicked m, c') \<Rightarrow> (Panicked m, c')
      | (_, c') \<Rightarrow> engine ifc schedulerName evs c')"
| "engine ifc schedulerName (PodUpdateEv newObj # evs) c =
     (case UpdateFunc schedulerName newObj c of
        (Panicked m, c') \<Rightarrow> (Panicked m, c')
      | (_, c') \<Rightarrow> engine ifc schedulerName evs c')"

subsection \<open>\<^verbatim>\<open>Report\<close>\<close>

text \<open>\<^verbatim>\<open>GetReport\<close> is a parameter. \<^verbatim>\<open>int32(x)\<close> keeps the low 32 bits of \<open>x\<close>.\<close>

definition int32 :: "int \<Rightarrow> 32 word" where
  "int32 x = word_of_int x"

definition Report ::
  "(Pod list \<Rightarrow> RunStatus \<Rightarrow> 'r ClusterCapacityReview) \<Rightarrow> ('s, 'r) ClusterCapacity
     \<Rightarrow> 'r ClusterCapacityReview \<times> ('s, 'r) ClusterCapacity" where
  "Report GetReport c =
     (case report c of
        None \<Rightarrow>
          (let pods = [];
               pods = pods @ [simulatedPod c];
               r = GetReport pods (status c);
               r = r\<lparr>Replicas := int32 (maxSimulated c)\<rparr>;
               c = c\<lparr>report := Some r\<rparr>
           in (r, c))
      | Some r \<Rightarrow> (r, c))"

subsection \<open>The disk cache\<close>

text \<open>
  \<^verbatim>\<open>diskCache\<close> keeps one file per key under its directory. The file system \<open>'fs\<close> and the
  library calls are parameters: \<open>os_ReadFile\<close> is \<^verbatim>\<open>os.Open\<close> followed by \<^verbatim>\<open>ioutil.ReadAll\<close>
  (\<open>Inl\<close> with \<open>True\<close> when the open failed, \<open>False\<close> when the read did), \<open>os_WriteFile\<close> is
  \<^verbatim>\<open>os.Create\<close> followed by \<^verbatim>\<open>Write\<close> and the deferred \<^verbatim>\<open>Close\<close>, \<open>sha1_hex\<close> the hexadecimal SHA-1
  digest and \<open>path_Join\<close> is \<^verbatim>\<open>path.Join\<close>.
\<close>

record diskCache =
  directory :: string

record 'fs OS =
  os_ReadFile :: "string \<Rightarrow> 'fs \<Rightarrow> (bool \<times> string) + 8 word list"
  os_WriteFile :: "string \<Rightarrow> 8 word list \<Rightarrow> 'fs \<Rightarrow> (bool \<times> string) option \<times> 'fs"
  sha1_hex :: "string \<Rightarrow> string"
  path_Join :: "string \<Rightarrow> string \<Rightarrow> string"

definition buildFileName :: "'fs OS \<Rightarrow> diskCache \<Rightarrow> string \<Rightarrow> string" where
  "buildFileName os d key = path_Join os (directory d) (sha1_hex os key)"

definition Get :: "'fs OS \<Rightarrow> diskCache \<Rightarrow> string \<Rightarrow> 'fs \<Rightarrow> string + 8 word list" where
  "Get os d key fs =
     (let filename = buildFileName os d key
      in case os_ReadFile os filename fs of
           Inl (True, err) \<Rightarrow> Inl (''unable to open file: '' @ err)
         | Inl (False, err) \<Rightarrow> Inl (''unable to read file: '' @ err)
         | Inr data \<Rightarrow> Inr data)"

definition Set :: "'fs OS \<Rightarrow> diskCache \<Rightarrow> string \<Rightarrow> 8 word list \<Rightarrow> 'fs \<Rightarrow> string option \<times> 'fs" where
  "Set os d key data fs =
     (let filename = buildFileName os d key
      in case os_WriteFile os filename data fs of
           (Some (True, err), fs') \<Rightarrow> (Some (''unable to create file: '' @ err), fs')
         | (Some (False, err), fs') \<Rightarrow> (Some (''unable to write items to file: '' @ err), fs')
         | (None, fs') \<Rightarrow> (None, fs'))"

definition Clean :: "diskCache \<Rightarrow> string \<Rightarrow> 'fs \<Rightarrow> string option \<times> 'fs" where
  "Clean d key fs = (None, fs)"

subsection \<open>Runs\<close>

text \<open>The state in which \<^verbatim>\<open>Run\<close> blocks on \<^verbatim>\<open><-c.stop\<close>, when it gets there: the first pod has
  been created and nothing has been sent yet.\<close>

definition Run_waits ::
  "'s Interfaces \<Rightarrow> (('s, 'r) ClusterCapacity \<Rightarrow> unit completion \<times> ('s, 'r) ClusterCapacity)
     \<Rightarrow> ('s, 'r) ClusterCapacity \<Rightarrow> ('s, 'r) ClusterCapacity option" where
  "Run_waits ifc before c =
     (case before (c\<lparr>ctx := CtxActive\<rparr>) of
        (Panicked m, c') \<Rightarrow> None
      | (_, c') \<Rightarrow>
          (case nextPod ifc c' of
             (Some err, c'') \<Rightarrow> None
           | (None, c'') \<Rightarrow>
               (case recv_chan (stop c'') of
                  (True, ch) \<Rightarrow> None
                | (False, ch) \<Rightarrow> Some (c''\<lparr>stop := ch\<rparr>))))"





text \<open>\<open>n\<close> calls of \<^verbatim>\<open>nextPod\<close> in a row, with the pods they created.\<close>

fun seed_many ::
  "'s Interfaces \<Rightarrow> nat \<Rightarrow> ('s, 'r) ClusterCapacity \<Rightarrow> Pod list \<times> ('s, 'r) ClusterCapacity" where
  "seed_many ifc 0 c = ([], c)"
| "seed_many ifc (Suc n) c =
     (let (err, c') = nextPod ifc c;
          (pods, c'') = seed_many ifc n c'
      in (case lastSimulatedPod c' of None \<Rightarrow> pods | Some pod \<Rightarrow> pod # pods, c''))"

text \<open>\<^verbatim>\<open>Close\<close> and \<^verbatim>\<open>Report\<close> called again and again.\<close>

fun Close_times :: "nat \<Rightarrow> ('s, 'r) ClusterCapacity \<Rightarrow> unit completion \<times> ('s, 'r) ClusterCapacity" where
  "Close_times 0 c = (Returned (), c)"
| "Close_times (Suc n) c =
     (case Close c of
        (Returned _, c') \<Rightarrow> Close_times n c'
      | (Panicked m, c') \<Rightarrow> (Panicked m, c')
      | (Blocked, c') \<Rightarrow> (Blocked, c'))"

fun Report_times ::
  "(Pod list \<Rightarrow> RunStatus \<Rightarrow> 'r ClusterCapacityReview) \<Rightarrow> nat \<Rightarrow> ('s, 'r) ClusterCapacity
     \<Rightarrow> 'r ClusterCapacityReview list \<times> ('s, 'r) ClusterCapacity" where
  "Report_times GetReport 0 c = ([], c)"
| "Report_times GetReport (Suc n) c =
     (let (r, c') = Report GetReport c;
          (rs, c'') = Report_times GetReport n c'
      in (r # rs, c''))"

subsection \<open>An in-memory cluster to run the model on\<close>

text \<open>
  A small instance of the interfaces, in the manner of the fake clientset: an object
  tracker keyed by namespace and name, where creating an existing object and reading a
  missing one fail; a strategy that stores the bound pod when its node is known; and
  identifiers taken from a counter.
\<close>

record tracker =
  objects :: "((string \<times> string) \<times> Pod) list"
  nodes :: "string list"
  uuids :: nat

definition key_of :: "Pod \<Rightarrow> string \<times> string" where
  "key_of pod = (Namespace (ObjectMeta pod), Name (ObjectMeta pod))"

definition tracker_Get :: "string \<Rightarrow> string \<Rightarrow> tracker \<Rightarrow> string + Pod" where
  "tracker_Get ns name w =
     (case map_of (objects w) (ns, name) of
        None \<Rightarrow> Inl (''pods '' @ name @ '' not found'')
      | Some pod \<Rightarrow> Inr pod)"

definition tracker_Create :: "Pod \<Rightarrow> tracker \<Rightarrow> string option \<times> tracker" where
  "tracker_Create pod w =
     (if map_of (objects w) (key_of pod) = None
      then (None, w\<lparr>objects := objects w @ [(key_of pod, pod)]\<rparr>)
      else (Some (''pods '' @ Name (ObjectMeta pod) @ '' already exists''), w))"

definition tracker_Add :: "Pod \<Rightarrow> tracker \<Rightarrow> string option \<times> tracker" where
  "tracker_Add pod w =
     (if NodeName (Spec pod) \<in> set (nodes w)
      then (None, w\<lparr>objects := map (\<lambda>(k, v). if k = key_of pod then (k, pod) else (k, v)) (objects w)\<rparr>)
      else (Some (''node '' @ NodeName (Spec pod) @ '' not found''), w))"

definition tracker_uuid :: "tracker \<Rightarrow> string \<times> tracker" where
  "tracker_uuid w = (''uuid-'' @ show_nat (uuids w), w\<lparr>uuids := uuids w + 1\<rparr>)"

definition tracker_ifc :: "tracker Interfaces" where
  "tracker_ifc = \<lparr>Pods_Get = tracker_Get, Pods_Create = tracker_Create,
                  strategy_Add = tracker_Add, uuid_NewV4 = tracker_uuid\<rparr>"

definition small_pod :: Pod where
  "small_pod =
     \<lparr>ObjectMeta = \<lparr>Name = ''small'', Namespace = ''ns'', UID = ''u'', Annotations = None\<rparr>,
      Spec = \<lparr>NodeName = ''n9'', SchedulerName = [], Containers = [''app'']\<rparr>,
      Status = \<lparr>Phase = ''Pending'', Conditions = []\<rparr>\<rparr>"

definition one_node :: tracker where
  "one_node = \<lparr>objects = [], nodes = [''n1''], uuids = 0\<rparr>"

text \<open>A report builder for the examples: it keeps its arguments.\<close>

definition plain_report :: "Pod list \<Rightarrow> RunStatus \<Rightarrow> (Pod list \<times> RunStatus) ClusterCapacityReview" where
  "plain_report pods st = \<lparr>Replicas = 0, review = (pods, st)\<rparr>"

text \<open>A pod of the example namespace with the given name, and a controller at its limit
  of two pods while \<^verbatim>\<open>Run\<close> waits.\<close>

definition named :: "string \<Rightarrow> Pod" where
  "named n = small_pod\<lparr>ObjectMeta := (ObjectMeta small_pod)\<lparr>Name := n\<rparr>\<rparr>"

definition at_limit :: "(tracker, unit) ClusterCapacity" where
  "at_limit =
     (New small_pod 2 (one_node\<lparr>objects := [((''ns'', ''small-1''), named ''small-1'')]\<rparr>))
       \<lparr>simulated := 2, stop := make_chan\<lparr>ch_receivers := 1\<rparr>\<rparr>"

text \<open>The condition the scheduler records on a pod it could not place, and the first
  instance of the example carrying it.\<close>

definition unschedulable :: "string \<Rightarrow> PodCondition" where
  "unschedulable msg =
     \<lparr>Type = ''PodScheduled'', Status = ''False'', Reason = ''Unschedulable'', Message = msg\<rparr>"

definition rejected :: "string \<Rightarrow> Pod" where
  "rejected msg =
     \<lparr>ObjectMeta = \<lparr>Name = ''small-0'', Namespace = ''ns'', UID = ''uuid-0'',
                    Annotations = Some [podProvisioner \<mapsto> DefaultSchedulerName]\<rparr>,
      Spec = \<lparr>NodeName = [], SchedulerName = DefaultSchedulerName, Containers = [''app'']\<rparr>,
      Status = \<lparr>Phase = ''Pending'', Conditions = [unschedulable msg]\<rparr>\<rparr>"

subsection \<open>Auxiliary notions for the proofs\<close>

text \<open>The pod that \<^verbatim>\<open>Bind\<close> hands to the strategy and records.\<close>

abbreviation updatedPod_of :: "Pod \<Rightarrow> string \<Rightarrow> Pod" where
  "updatedPod_of pod nodeName \<equiv>
     pod\<lparr>Spec := (Spec pod)\<lparr>NodeName := nodeName\<rparr>, Status := (Status pod)\<lparr>Phase := PodRunning\<rparr>\<rparr>"

text \<open>The two scheduler-side channels are in step with the flag \<open>closed\<close>, and nobody sends
  on them. Only \<^verbatim>\<open>Close\<close> touches them, so this holds from \<^verbatim>\<open>New\<close> on.\<close>

definition chans_ok :: "('s, 'r) ClusterCapacity \<Rightarrow> bool" where
  "chans_ok c \<longleftrightarrow>
     ch_senders (schedulerCh c) = 0 \<and> ch_senders (informerStopCh c) = 0 \<and>
     ch_closed (schedulerCh c) = closed c \<and> ch_closed (informerStopCh c) = closed c"

text \<open>What \<^verbatim>\<open>Close\<close> does to such a state.\<close>

definition close_all :: "('s, 'r) ClusterCapacity \<Rightarrow> ('s, 'r) ClusterCapacity" where
  "close_all c =
     (if closed c then c
      else c\<lparr>schedulerCh := (schedulerCh c)\<lparr>ch_closed := True, ch_receivers := 0\<rparr>,
             informerStopCh := (informerStopCh c)\<lparr>ch_closed := True, ch_receivers := 0\<rparr>,
             closed := True\<rparr>)"

text \<open>The send at the end of the limit branch of \<^verbatim>\<open>Bind\<close>.\<close>

definition send_stop ::
  "('s, 'r) ClusterCapacity \<Rightarrow> PluginStatus option completion \<times> ('s, 'r) ClusterCapacity" where
  "send_stop c =
     (case send_chan (stop c) of
        SendPanic m \<Rightarrow> (Panicked m, c)
      | SendBlocked ch \<Rightarrow> (Blocked, c\<lparr>stop := ch\<rparr>)
      | Sent ch \<Rightarrow> (Returned None, c\<lparr>stop := ch\<rparr>))"

text \<open>The lock, the flag and the send at the end of \<^verbatim>\<open>Update\<close>.\<close>

definition lock_and_send ::
  "('s, 'r) ClusterCapacity \<Rightarrow> string option completion \<times> ('s, 'r) ClusterCapacity" where
  "lock_and_send c =
     (if stopMux c then (Blocked, c)
      else case send_chan (stop c) of
             SendPanic m \<Rightarrow> (Panicked m, c\<lparr>stopMux := False, stopped := True\<rparr>)
           | SendBlocked ch \<Rightarrow> (Blocked, c\<lparr>stop := ch, stopMux := True, stopped := True\<rparr>)
           | Sent ch \<Rightarrow> (Returned None, c\<lparr>stop := ch, stopMux := False, stopped := True\<rparr>))"


definition limit_message :: "int \<Rightarrow> string" where
  "limit_message N = ''LimitReached: Maximum number of pods simulated: '' @ show_int N"

text \<open>The condition on which \<^verbatim>\<open>Update\<close> stops the run.\<close>

definition terminal :: "Pod \<Rightarrow> PodCondition \<Rightarrow> bool" where
  "terminal pod podCondition \<longleftrightarrow>
     Type podCondition = PodScheduled \<and> PodCondition.Status podCondition = ConditionFalse \<and>
     Reason podCondition = ''Unschedulable'' \<and> HasAnnotation (ObjectMeta pod) podProvisioner"

text \<open>The pod that \<^verbatim>\<open>nextPod\<close> builds in the state \<open>c\<close>, and whether the client accepts its
  creation.\<close>

definition next_instance :: "'s Interfaces \<Rightarrow> ('s, 'r) ClusterCapacity \<Rightarrow> Pod" where
  "next_instance ifc c =
     (simulatedPod c)
       \<lparr>Spec := (Spec (simulatedPod c))\<lparr>NodeName := [], SchedulerName := defaultSchedulerName c\<rparr>,
        ObjectMeta := (ObjectMeta (simulatedPod c))
          \<lparr>Name := Name (ObjectMeta (simulatedPod c)) @ ''-'' @ show_int (simulated c),
           UID := fst (uuid_NewV4 ifc (world c)),
           Annotations := Some ((case Annotations (ObjectMeta (simulatedPod c)) of
                                   None \<Rightarrow> Map.empty | Some m \<Rightarrow> m)
                                (podProvisioner \<mapsto> defaultSchedulerName c))\<rparr>\<rparr>"

definition create_ok :: "'s Interfaces \<Rightarrow> ('s, 'r) ClusterCapacity \<Rightarrow> bool" where
  "create_ok ifc c \<longleftrightarrow>
     fst (Pods_Create ifc (next_instance ifc c) (snd (uuid_NewV4 ifc (world c)))) = None"








section \<open>Properties\<close>

subsection \<open>What each operation does\<close>

lemma Close_ok: "chans_ok c \<Longrightarrow> Close c = (Returned (), close_all c)"
  by (simp add: Close_def close_all_def chans_ok_def close_chan_def)

lemma close_all_simps [simp]:
  "world (close_all c) = world c" "defaultSchedulerName (close_all c) = defaultSchedulerName c"
  "simulatedPod (close_all c) = simulatedPod c" "lastSimulatedPod (close_all c) = lastSimulatedPod c"
  "maxSimulated (close_all c) = maxSimulated c" "simulated (close_all c) = simulated c"
  "status (close_all c) = status c" "report (close_all c) = report c"
  "stop (close_all c) = stop c" "stopMux (close_all c) = stopMux c"
  "stopped (close_all c) = stopped c" "ctx (close_all c) = ctx c"
  "closed (close_all c)"
  by (simp_all add: close_all_def)

lemma chans_ok_close_all [simp]: "chans_ok c \<Longrightarrow> chans_ok (close_all c)"
  by (simp add: close_all_def chans_ok_def)

lemma close_all_closed [simp]: "closed c \<Longrightarrow> close_all c = c"
  by (simp add: close_all_def)

lemma chans_ok_upd [simp]:
  "chans_ok (c\<lparr>world := w\<rparr>) = chans_ok c"
  "chans_ok (c\<lparr>status := st\<rparr>) = chans_ok c"
  "chans_ok (c\<lparr>stop := ch\<rparr>) = chans_ok c"
  "chans_ok (c\<lparr>stopMux := b\<rparr>) = chans_ok c"
  "chans_ok (c\<lparr>stopped := b\<rparr>) = chans_ok c"
  "chans_ok (c\<lparr>ctx := x\<rparr>) = chans_ok c"
  "chans_ok (c\<lparr>simulated := n\<rparr>) = chans_ok c"
  "chans_ok (c\<lparr>lastSimulatedPod := lp\<rparr>) = chans_ok c"
  "chans_ok (c\<lparr>report := rp\<rparr>) = chans_ok c"
  by (simp_all add: chans_ok_def)

lemma nextPod_keeps:
  assumes "nextPod ifc c = (err, c')"
  shows "defaultSchedulerName c' = defaultSchedulerName c"
    and "simulatedPod c' = simulatedPod c"
    and "maxSimulated c' = maxSimulated c" and "simulated c' = wrap64 (simulated c + 1)"
    and "status c' = status c" and "report c' = report c" and "stop c' = stop c"
    and "schedulerCh c' = schedulerCh c" and "informerStopCh c' = informerStopCh c"
    and "closed c' = closed c"
    and "stopMux c' = stopMux c" and "stopped c' = stopped c" and "ctx c' = ctx c"
  using assms
  by (auto simp: nextPod_def Let_def split: prod.splits)


lemma send_stop_keeps:
  assumes "send_stop c = (r, c')"
  shows "maxSimulated c' = maxSimulated c" and "simulated c' = simulated c"
    and "status c' = status c" and "closed c' = closed c" and "chans_ok c' = chans_ok c"
    and "world c' = world c" and "lastSimulatedPod c' = lastSimulatedPod c"
  using assms
  by (auto simp: send_stop_def split: send_result.splits)


lemma wrap64_id: "- (2 ^ 63) \<le> x \<Longrightarrow> x < 2 ^ 63 \<Longrightarrow> wrap64 x = x"
  by (simp add: wrap64_def)


lemma Update_other: "\<not> terminal pod podCondition \<Longrightarrow> Update pod podCondition sn c = (Returned None, c)"
  by (auto simp: Update_def terminal_def Let_def)

lemma Update_terminal:
  assumes "chans_ok c" and "terminal pod podCondition"
  shows "Update pod podCondition sn c =
           lock_and_send (close_all (c\<lparr>status := (status c)
             \<lparr>StopReason := Reason podCondition @ '': '' @ Message podCondition\<rparr>\<rparr>))"
proof -
  let ?c1 = "c\<lparr>status := (status c)\<lparr>StopReason := Reason podCondition @ '': '' @ Message podCondition\<rparr>\<rparr>"
  have "chans_ok ?c1" using assms(1) by simp
  then have cl: "Close ?c1 = (Returned (), close_all ?c1)" by (rule Close_ok)
  have t: "Type podCondition = PodScheduled \<and> PodCondition.Status podCondition = ConditionFalse
           \<and> Reason podCondition = ''Unschedulable'' \<and> HasAnnotation (ObjectMeta pod) podProvisioner"
    using assms(2) by (simp add: terminal_def)
  show ?thesis
    unfolding Update_def Let_def lock_and_send_def
    using t cl by (simp split: send_result.splits)
qed

lemma lock_and_send_keeps:
  assumes "lock_and_send c = (r, c')"
  shows "maxSimulated c' = maxSimulated c" and "simulated c' = simulated c"
    and "status c' = status c" and "closed c' = closed c" and "chans_ok c' = chans_ok c"
    and "world c' = world c" and "lastSimulatedPod c' = lastSimulatedPod c"
  using assms
  by (auto simp: lock_and_send_def chans_ok_def split: send_result.splits if_splits)













lemma nextPod_eq:
  "nextPod ifc c =
     (fst (Pods_Create ifc (next_instance ifc c) (snd (uuid_NewV4 ifc (world c)))),
      c\<lparr>world := snd (Pods_Create ifc (next_instance ifc c) (snd (uuid_NewV4 ifc (world c)))),
        simulated := wrap64 (simulated c + 1),
        lastSimulatedPod := Some (next_instance ifc c)\<rparr>)"
  by (cases "Annotations (ObjectMeta (simulatedPod c))")
     (simp_all add: nextPod_def next_instance_def Let_def split_beta)


lemma create_ok_upd [simp]:
  "create_ok ifc (c\<lparr>status := st\<rparr>) = create_ok ifc c"
  "create_ok ifc (c\<lparr>ctx := x\<rparr>) = create_ok ifc c"
  by (simp_all add: create_ok_def next_instance_def)

lemma chans_ok_New [simp]: "chans_ok (New t N w)"
  by (simp add: New_def chans_ok_def make_chan_def)



lemma Close_status: "Close c = (r, c') \<Longrightarrow> status c' = status c"
  by (auto simp: Close_def close_chan_def split: if_splits)



lemma send_stop_Returned:
  assumes "send_stop c = (Returned x, c')"
  shows "x = None" and "0 < ch_receivers (stop c)" and "\<not> ch_closed (stop c)"
    and "c' = c\<lparr>stop := (stop c)\<lparr>ch_receivers := ch_receivers (stop c) - 1,
                                  ch_delivered := ch_delivered (stop c) + 1\<rparr>\<rparr>"
  using assms
  by (auto simp: send_stop_def send_chan_def split: if_splits)




text \<open>Evaluation of the decimal printer and of the model on concrete states.\<close>

lemma show_nat_digit: "n < 10 \<Longrightarrow> show_nat n = [digit_char n]"
  by (simp add: show_nat.simps)

lemma digit_chars:
  "digit_char 0 = CHR ''0''" "digit_char 1 = CHR ''1''" "digit_char 2 = CHR ''2''"
  "digit_char 3 = CHR ''3''" "digit_char 4 = CHR ''4''" "digit_char 5 = CHR ''5''"
  "digit_char 6 = CHR ''6''" "digit_char 7 = CHR ''7''" "digit_char 8 = CHR ''8''"
  "digit_char 9 = CHR ''9''" "digit_char (Suc 0) = CHR ''1''"
  "digit_char (Suc (Suc 0)) = CHR ''2''"
  by code_simp+

lemmas run_defs = Run_waits_def nextPod_def Bind_def Close_def send_chan_def
  recv_chan_def close_chan_def tracker_ifc_def tracker_Get_def tracker_Create_def tracker_Add_def
  tracker_uuid_def New_def make_chan_def small_pod_def one_node_def key_of_def Let_def
  show_int_def show_nat_digit digit_chars named_def wrap64_def




subsection \<open>The limit on recorded placements\<close>




subsection \<open>The stop reason at the limit\<close>

lemma Bind_limit_StopReason:
  assumes g: "Pods_Get ifc (Namespace (ObjectMeta p)) (Name (ObjectMeta p)) (world c) = Inr pod"
    and a: "strategy_Add ifc (updatedPod_of pod nodeName) (world c) = (None, w')"
    and l: "0 < maxSimulated c" "maxSimulated c \<le> simulated c"
  shows "status (snd (Bind ifc p nodeName sn c)) =
           (status c)\<lparr>Pods := Pods (status c) @ [updatedPod_of pod nodeName],
                      StopReason := limit_message (maxSimulated c)\<rparr>"
proof -
  let ?c1 = "c\<lparr>world := w',
               status := (status c)\<lparr>Pods := Pods (status c) @ [updatedPod_of pod nodeName],
                          StopReason := limit_message (maxSimulated c)\<rparr>\<rparr>"
  obtain r c2 where cl: "Close ?c1 = (r, c2)" by (cases "Close ?c1")
  have st: "status c2 = status ?c1" using cl by (rule Close_status)
  have b: "Bind ifc p nodeName sn c =
      (case r of Panicked m \<Rightarrow> (Panicked m, c2) | Blocked \<Rightarrow> (Blocked, c2)
       | Returned u \<Rightarrow> send_stop c2)"
    using g a l cl
    by (cases r) (simp_all add: Bind_def Let_def limit_message_def send_stop_def)
  obtain r3 c3 where s: "send_stop c2 = (r3, c3)" by (cases "send_stop c2")
  have "status c3 = status c2" using s by (rule send_stop_keeps)
  with b s st show ?thesis by (cases r) simp_all
qed

text \<open>
  Claim C2, as amended. When \<^verbatim>\<open>Bind\<close> has recorded a pod and the counter has reached the
  limit \<open>N > 0\<close>, the stop reason is the text
  \<^verbatim>\<open>LimitReached: Maximum number of pods simulated: \<close> followed by \<open>N\<close> in decimal.
\<close>

theorem limit_stop_reason:
  assumes "Pods_Get ifc (Namespace (ObjectMeta p)) (Name (ObjectMeta p)) (world c) = Inr pod"
    and "strategy_Add ifc (updatedPod_of pod nodeName) (world c) = (None, w')"
    and "0 < maxSimulated c" and "maxSimulated c \<le> simulated c"
  shows "StopReason (status (snd (Bind ifc p nodeName sn c))) =
           ''LimitReached: Maximum number of pods simulated: '' @ show_int (maxSimulated c)"
  using Bind_limit_StopReason [OF assms] by (simp add: limit_message_def)

theorem limit_stop_reason_witness:
  "StopReason (status (snd (Bind tracker_ifc (named ''small-1'') ''n1'' ''default-scheduler'' at_limit)))
     = ''LimitReached: Maximum number of pods simulated: 2''"
proof -
  have g: "Pods_Get tracker_ifc (Namespace (ObjectMeta (named ''small-1'')))
             (Name (ObjectMeta (named ''small-1''))) (world at_limit) = Inr (named ''small-1'')"
    by (simp add: at_limit_def tracker_ifc_def tracker_Get_def New_def named_def small_pod_def one_node_def)
  have "\<exists>w'. strategy_Add tracker_ifc (updatedPod_of (named ''small-1'') ''n1'') (world at_limit) = (None, w')"
    by (simp add: at_limit_def tracker_ifc_def tracker_Add_def New_def named_def small_pod_def one_node_def)
  then obtain w' where a: "strategy_Add tracker_ifc (updatedPod_of (named ''small-1'') ''n1'') (world at_limit) = (None, w')" ..
  have l: "0 < maxSimulated at_limit" "maxSimulated at_limit \<le> simulated at_limit"
    by (simp_all add: at_limit_def New_def)
  have m: "maxSimulated at_limit = 2" by (simp add: at_limit_def New_def)
  show ?thesis
    using limit_stop_reason [OF g a l, of "''default-scheduler''"]
    by (simp add: m show_int_def show_nat_digit digit_chars)
qed

text \<open>The run of the claim's example, limit 3 and three accepted binds, ends with a stop
  reason that is not the text of the claim.\<close>

theorem limit_stop_reason_counterexample:
  "fst (Run tracker_ifc (engine tracker_ifc ''default-scheduler'' [])
          (engine tracker_ifc ''default-scheduler''
          [BindEv (named ''small-0'') ''n1'', BindEv (named ''small-1'') ''n1'',
           BindEv (named ''small-2'') ''n1''])
          (New small_pod 3 one_node :: (tracker, unit) ClusterCapacity)) = Returned None \<and>
   StopReason (status (snd (Run tracker_ifc (engine tracker_ifc ''default-scheduler'' [])
          (engine tracker_ifc ''default-scheduler''
          [BindEv (named ''small-0'') ''n1'', BindEv (named ''small-1'') ''n1'',
           BindEv (named ''small-2'') ''n1''])
          (New small_pod 3 one_node :: (tracker, unit) ClusterCapacity))))
     = ''LimitReached: Maximum number of pods simulated: 3'' \<and>
   StopReason (status (snd (Run tracker_ifc (engine tracker_ifc ''default-scheduler'' [])
          (engine tracker_ifc ''default-scheduler''
          [BindEv (named ''small-0'') ''n1'', BindEv (named ''small-1'') ''n1'',
           BindEv (named ''small-2'') ''n1''])
          (New small_pod 3 one_node :: (tracker, unit) ClusterCapacity))))
     \<noteq> ''LimitReached: Maximum number of 3 simulated''"
  by (simp add: Run_def run_defs)

subsection \<open>Rejection observed by the update handler\<close>

lemma lock_and_send_status: "lock_and_send c = (r, c') \<Longrightarrow> status c' = status c"
  by (rule lock_and_send_keeps)

lemma Update_terminal_StopReason:
  assumes "terminal pod podCondition"
  shows "StopReason (status (snd (Update pod podCondition sn c))) =
           Reason podCondition @ '': '' @ Message podCondition"
proof -
  let ?c1 = "c\<lparr>status := (status c)\<lparr>StopReason := Reason podCondition @ '': '' @ Message podCondition\<rparr>\<rparr>"
  obtain r c2 where cl: "Close ?c1 = (r, c2)" by (cases "Close ?c1")
  have st: "status c2 = status ?c1" using cl by (rule Close_status)
  have t: "Type podCondition = PodScheduled \<and> PodCondition.Status podCondition = ConditionFalse
           \<and> Reason podCondition = ''Unschedulable'' \<and> HasAnnotation (ObjectMeta pod) podProvisioner"
    using assms by (simp add: terminal_def)
  have u: "Update pod podCondition sn c =
      (case r of Panicked m \<Rightarrow> (Panicked m, c2) | Blocked \<Rightarrow> (Blocked, c2)
       | Returned u \<Rightarrow> lock_and_send c2)"
    unfolding Update_def Let_def lock_and_send_def
    using t cl by (cases r) (simp_all split: send_result.splits)
  obtain r3 c3 where s: "lock_and_send c2 = (r3, c3)" by (cases "lock_and_send c2")
  have "status c3 = status c2" using s by (rule lock_and_send_status)
  with u s st show ?thesis by (cases r) simp_all
qed

text \<open>
  Claim C3. \<open>terminal\<close> is the condition of the claim: the condition has type
  \<^verbatim>\<open>PodScheduled\<close>, status \<^verbatim>\<open>False\<close> and reason \<^verbatim>\<open>Unschedulable\<close>, and the pod carries the
  annotation \<^verbatim>\<open>cc.kubernetes.io/provisioned-by\<close>. When it holds, \<^verbatim>\<open>Update\<close> sets the stop
  reason to the reason, a colon and a space, and the message; in a run that is going on
  (nothing closed, \<^verbatim>\<open>Run\<close> waiting on \<^verbatim>\<open>c.stop\<close>, the mutex free) it closes the scheduler and
  informer channels, sets both flags, hands one value to \<^verbatim>\<open>Run\<close> and returns \<^verbatim>\<open>nil\<close>. When
  it does not hold, \<^verbatim>\<open>Update\<close> returns \<^verbatim>\<open>nil\<close> and the controller is as before. So a run that
  is going on is stopped by \<^verbatim>\<open>Update\<close> exactly when the condition holds.
\<close>

theorem Update_stops_on_rejection_only:
  "(terminal pod podCondition \<longleftrightarrow>
      Type podCondition = ''PodScheduled'' \<and> PodCondition.Status podCondition = ''False'' \<and>
      Reason podCondition = ''Unschedulable'' \<and>
      (\<exists>m. Annotations (ObjectMeta pod) = Some m \<and> ''cc.kubernetes.io/provisioned-by'' \<in> dom m)) \<and>
   (terminal pod podCondition \<longrightarrow>
      StopReason (status (snd (Update pod podCondition sn c))) =
        Reason podCondition @ '': '' @ Message podCondition) \<and>
   (terminal pod podCondition \<and> chans_ok c \<and> \<not> closed c \<and> \<not> stopMux c \<and>
    \<not> ch_closed (stop c) \<and> 0 < ch_receivers (stop c) \<longrightarrow>
      Update pod podCondition sn c =
        (Returned None,
         c\<lparr>status := (status c)\<lparr>StopReason := ''Unschedulable: '' @ Message podCondition\<rparr>,
           schedulerCh := (schedulerCh c)\<lparr>ch_closed := True, ch_receivers := 0\<rparr>,
           informerStopCh := (informerStopCh c)\<lparr>ch_closed := True, ch_receivers := 0\<rparr>,
           closed := True,
           stop := (stop c)\<lparr>ch_receivers := ch_receivers (stop c) - 1,
                             ch_delivered := ch_delivered (stop c) + 1\<rparr>,
           stopMux := False, stopped := True\<rparr>)) \<and>
   (\<not> terminal pod podCondition \<longrightarrow> Update pod podCondition sn c = (Returned None, c)) \<and>
   (\<not> closed c \<and> chans_ok c \<longrightarrow>
      (closed (snd (Update pod podCondition sn c)) \<longleftrightarrow> terminal pod podCondition))"
proof (intro conjI impI)
  show "terminal pod podCondition \<longleftrightarrow>
      Type podCondition = ''PodScheduled'' \<and> PodCondition.Status podCondition = ''False'' \<and>
      Reason podCondition = ''Unschedulable'' \<and>
      (\<exists>m. Annotations (ObjectMeta pod) = Some m \<and> ''cc.kubernetes.io/provisioned-by'' \<in> dom m)"
    by (auto simp: terminal_def PodScheduled_def ConditionFalse_def HasAnnotation_def
          podProvisioner_def split: option.splits)
next
  assume "terminal pod podCondition"
  then show "StopReason (status (snd (Update pod podCondition sn c))) =
        Reason podCondition @ '': '' @ Message podCondition"
    by (rule Update_terminal_StopReason)
next
  assume h: "terminal pod podCondition \<and> chans_ok c \<and> \<not> closed c \<and> \<not> stopMux c \<and>
    \<not> ch_closed (stop c) \<and> 0 < ch_receivers (stop c)"
  then have r: "Reason podCondition = ''Unschedulable''" by (simp add: terminal_def)
  from h have "Update pod podCondition sn c =
           lock_and_send (close_all (c\<lparr>status := (status c)
             \<lparr>StopReason := Reason podCondition @ '': '' @ Message podCondition\<rparr>\<rparr>))"
    by (simp add: Update_terminal)
  also have "\<dots> = (Returned None,
         c\<lparr>status := (status c)\<lparr>StopReason := ''Unschedulable: '' @ Message podCondition\<rparr>,
           schedulerCh := (schedulerCh c)\<lparr>ch_closed := True, ch_receivers := 0\<rparr>,
           informerStopCh := (informerStopCh c)\<lparr>ch_closed := True, ch_receivers := 0\<rparr>,
           closed := True,
           stop := (stop c)\<lparr>ch_receivers := ch_receivers (stop c) - 1,
                             ch_delivered := ch_delivered (stop c) + 1\<rparr>,
           stopMux := False, stopped := True\<rparr>)"
    using h r by (simp add: lock_and_send_def close_all_def send_chan_def)
  finally show "Update pod podCondition sn c = (Returned None,
         c\<lparr>status := (status c)\<lparr>StopReason := ''Unschedulable: '' @ Message podCondition\<rparr>,
           schedulerCh := (schedulerCh c)\<lparr>ch_closed := True, ch_receivers := 0\<rparr>,
           informerStopCh := (informerStopCh c)\<lparr>ch_closed := True, ch_receivers := 0\<rparr>,
           closed := True,
           stop := (stop c)\<lparr>ch_receivers := ch_receivers (stop c) - 1,
                             ch_delivered := ch_delivered (stop c) + 1\<rparr>,
           stopMux := False, stopped := True\<rparr>)" .
next
  assume "\<not> terminal pod podCondition"
  then show "Update pod podCondition sn c = (Returned None, c)" by (rule Update_other)
next
  assume h: "\<not> closed c \<and> chans_ok c"
  show "closed (snd (Update pod podCondition sn c)) \<longleftrightarrow> terminal pod podCondition"
  proof (cases "terminal pod podCondition")
    case False
    with h show ?thesis by (simp add: Update_other)
  next
    case True
    let ?c1 = "close_all (c\<lparr>status := (status c)
             \<lparr>StopReason := Reason podCondition @ '': '' @ Message podCondition\<rparr>\<rparr>)"
    obtain r c' where s: "lock_and_send ?c1 = (r, c')" by (cases "lock_and_send ?c1")
    have "closed c' = closed ?c1" using s by (rule lock_and_send_keeps)
    with True h s show ?thesis by (simp add: Update_terminal)
  qed
qed

theorem Update_stops_on_rejection_only_witness:
  "terminal (rejected ''Insufficient cpu'') (unschedulable ''Insufficient cpu'') \<and>
   chans_ok at_limit \<and> \<not> closed at_limit \<and> \<not> stopMux at_limit \<and>
   \<not> ch_closed (stop at_limit) \<and> 0 < ch_receivers (stop at_limit) \<and>
   fst (Update (rejected ''Insufficient cpu'') (unschedulable ''Insufficient cpu'')
          ''default-scheduler'' at_limit) = Returned None \<and>
   StopReason (status (snd (Update (rejected ''Insufficient cpu'') (unschedulable ''Insufficient cpu'')
          ''default-scheduler'' at_limit))) = ''Unschedulable: Insufficient cpu'' \<and>
   closed (snd (Update (rejected ''Insufficient cpu'') (unschedulable ''Insufficient cpu'')
          ''default-scheduler'' at_limit)) \<and>
   \<not> terminal small_pod (unschedulable ''Insufficient cpu'') \<and>
   Update small_pod (unschedulable ''Insufficient cpu'') ''default-scheduler'' at_limit
     = (Returned None, at_limit)"
proof -
  have t: "terminal (rejected ''Insufficient cpu'') (unschedulable ''Insufficient cpu'')"
    by (simp add: terminal_def rejected_def unschedulable_def PodScheduled_def ConditionFalse_def
          HasAnnotation_def)
  have n: "\<not> terminal small_pod (unschedulable ''Insufficient cpu'')"
    by (simp add: terminal_def small_pod_def HasAnnotation_def)
  have pre: "chans_ok at_limit \<and> \<not> closed at_limit \<and> \<not> stopMux at_limit \<and>
     \<not> ch_closed (stop at_limit) \<and> 0 < ch_receivers (stop at_limit)"
    by (simp add: at_limit_def chans_ok_def New_def make_chan_def)
  have m: "Message (unschedulable ''Insufficient cpu'') = ''Insufficient cpu''"
    by (simp add: unschedulable_def)
  show ?thesis
    using t n pre m
      Update_stops_on_rejection_only [of "rejected ''Insufficient cpu''"
        "unschedulable ''Insufficient cpu''" "''default-scheduler''" at_limit]
      Update_stops_on_rejection_only [of small_pod
        "unschedulable ''Insufficient cpu''" "''default-scheduler''" at_limit]
    by simp
qed

subsection \<open>A second rejection\<close>

text \<open>
  Claim C4 does not hold of the code: \<^verbatim>\<open>Update\<close> writes \<^verbatim>\<open>c.stopped\<close> and never reads it. In the
  example the informer delivers the rejection of the first instance. Delivered once, \<^verbatim>\<open>Run\<close>
  returns with the stop reason of that rejection. A further call of \<^verbatim>\<open>Update\<close> on the
  controller that \<^verbatim>\<open>Run\<close> has left replaces the stop reason and panics in the send on the
  closed channel. Delivered twice while \<^verbatim>\<open>Run\<close> waits, the second call blocks in the send,
  and the \<^verbatim>\<open>close(c.stop)\<close> of \<^verbatim>\<open>Run\<close> then makes it panic.
\<close>

theorem second_rejection_faults:
  "fst (Run tracker_ifc (engine tracker_ifc ''default-scheduler'' [])
          (engine tracker_ifc ''default-scheduler''
          [PodUpdateEv (rejected ''Insufficient cpu'')])
          (New small_pod 0 one_node :: (tracker, unit) ClusterCapacity)) = Returned None \<and>
   StopReason (status (snd (Run tracker_ifc (engine tracker_ifc ''default-scheduler'' [])
          (engine tracker_ifc ''default-scheduler''
          [PodUpdateEv (rejected ''Insufficient cpu'')])
          (New small_pod 0 one_node :: (tracker, unit) ClusterCapacity))))
     = ''Unschedulable: Insufficient cpu'' \<and>
   fst (Update (rejected ''Insufficient memory'') (unschedulable ''Insufficient memory'')
          ''default-scheduler''
          (snd (Run tracker_ifc (engine tracker_ifc ''default-scheduler'' [])
          (engine tracker_ifc ''default-scheduler''
            [PodUpdateEv (rejected ''Insufficient cpu'')])
            (New small_pod 0 one_node :: (tracker, unit) ClusterCapacity))))
     = Panicked ''send on closed channel'' \<and>
   StopReason (status (snd (Update (rejected ''Insufficient memory'')
          (unschedulable ''Insufficient memory'') ''default-scheduler''
          (snd (Run tracker_ifc (engine tracker_ifc ''default-scheduler'' [])
          (engine tracker_ifc ''default-scheduler''
            [PodUpdateEv (rejected ''Insufficient cpu'')])
            (New small_pod 0 one_node :: (tracker, unit) ClusterCapacity))))))
     = ''Unschedulable: Insufficient memory'' \<and>
   fst (Run tracker_ifc (engine tracker_ifc ''default-scheduler'' [])
          (engine tracker_ifc ''default-scheduler''
          [PodUpdateEv (rejected ''Insufficient cpu''), PodUpdateEv (rejected ''Insufficient cpu'')])
          (New small_pod 0 one_node :: (tracker, unit) ClusterCapacity))
     = Panicked ''send on closed channel''"
  by (simp add: Run_def run_defs UpdateFunc_def FilterFunc_def Update_def rejected_def
        unschedulable_def PodScheduled_def ConditionFalse_def HasAnnotation_def
        DefaultSchedulerName_def)

subsection \<open>A failing strategy\<close>

text \<open>
  Claim C5. When the pod is found and \<^verbatim>\<open>strategy.Add\<close> fails, \<^verbatim>\<open>Bind\<close> returns an error status
  with the strategy's message, and the controller is as before except for what the
  strategy itself did to the world: nothing is appended to \<^verbatim>\<open>status.Pods\<close>, the stop reason,
  the counter and the channels are untouched, and no pod is created.
\<close>

theorem Bind_projection_error:
  assumes "Pods_Get ifc (Namespace (ObjectMeta p)) (Name (ObjectMeta p)) (world c) = Inr pod"
    and "strategy_Add ifc (updatedPod_of pod nodeName) (world c) = (Some err, w')"
  shows "Bind ifc p nodeName sn c =
           (Returned (Some (NewStatus Error (''Unable to recompute new cluster state: '' @ err))),
            c\<lparr>world := w'\<rparr>)"
  using assms by (simp add: Bind_def)

theorem Bind_projection_error_witness:
  "Bind tracker_ifc (named ''small-1'') ''n2'' ''default-scheduler'' at_limit =
     (Returned (Some (NewStatus Error (''Unable to recompute new cluster state: node n2 not found''))),
      at_limit) \<and>
   Pods (status at_limit) = [] \<and> StopReason (status at_limit) = []"
proof -
  have g: "Pods_Get tracker_ifc (Namespace (ObjectMeta (named ''small-1'')))
             (Name (ObjectMeta (named ''small-1''))) (world at_limit) = Inr (named ''small-1'')"
    by (simp add: at_limit_def tracker_ifc_def tracker_Get_def New_def named_def small_pod_def one_node_def)
  have a: "strategy_Add tracker_ifc (updatedPod_of (named ''small-1'') ''n2'') (world at_limit)
             = (Some ''node n2 not found'', world at_limit)"
    by (simp add: at_limit_def tracker_ifc_def tracker_Add_def New_def named_def small_pod_def one_node_def)
  have s: "Pods (status at_limit) = [] \<and> StopReason (status at_limit) = []"
    by (simp add: at_limit_def New_def)
  show ?thesis
    using s Bind_projection_error [OF g a, of "''default-scheduler''"] by simp
qed

subsection \<open>The first pod cannot be created\<close>



subsection \<open>Closing twice\<close>

lemma Close_times_closed: "closed c \<Longrightarrow> Close_times n c = (Returned (), c)"
  by (induction n) (simp_all add: Close_def)

text \<open>
  Claim C7. On a controller that is not closed, with both channels open, \<^verbatim>\<open>Close\<close> closes
  the scheduler channel and the informer channel, sets the flag and returns. On a closed
  controller it returns and changes nothing. So any number of calls, one after the other,
  does what the first call does and none of them panics; \<^verbatim>\<open>closedMux\<close> makes concurrent
  calls run one after the other.
\<close>

theorem Close_idempotent:
  "(chans_ok c \<and> \<not> closed c \<longrightarrow>
      Close c = (Returned (),
                 c\<lparr>schedulerCh := (schedulerCh c)\<lparr>ch_closed := True, ch_receivers := 0\<rparr>,
                   informerStopCh := (informerStopCh c)\<lparr>ch_closed := True, ch_receivers := 0\<rparr>,
                   closed := True\<rparr>)) \<and>
   (closed c \<longrightarrow> Close c = (Returned (), c)) \<and>
   (chans_ok c \<longrightarrow> Close_times (Suc n) c = Close c \<and> fst (Close c) = Returned () \<and>
      chans_ok (snd (Close c)) \<and> closed (snd (Close c)))"
proof (intro conjI impI)
  assume "chans_ok c \<and> \<not> closed c"
  then show "Close c = (Returned (),
                 c\<lparr>schedulerCh := (schedulerCh c)\<lparr>ch_closed := True, ch_receivers := 0\<rparr>,
                   informerStopCh := (informerStopCh c)\<lparr>ch_closed := True, ch_receivers := 0\<rparr>,
                   closed := True\<rparr>)"
    by (simp add: Close_ok close_all_def)
next
  assume "closed c"
  then show "Close c = (Returned (), c)" by (simp add: Close_def)
next
  assume ok: "chans_ok c"
  then have cl: "Close c = (Returned (), close_all c)" by (rule Close_ok)
  show "Close_times (Suc n) c = Close c"
    by (simp add: cl Close_times_closed)
  show "fst (Close c) = Returned ()" by (simp add: cl)
  show "chans_ok (snd (Close c))" using ok by (simp add: cl)
  show "closed (snd (Close c))" by (simp add: cl)
qed

theorem Close_idempotent_witness:
  "chans_ok at_limit \<and> \<not> closed at_limit \<and>
   fst (Close at_limit) = Returned () \<and>
   ch_closed (schedulerCh (snd (Close at_limit))) \<and>
   ch_closed (informerStopCh (snd (Close at_limit))) \<and>
   closed (snd (Close at_limit)) \<and>
   Close (snd (Close at_limit)) = (Returned (), snd (Close at_limit)) \<and>
   Close_times 3 at_limit = Close at_limit"
proof -
  have pre: "chans_ok at_limit \<and> \<not> closed at_limit"
    by (simp add: at_limit_def chans_ok_def New_def make_chan_def)
  have three: "(3::nat) = Suc 2" by simp
  show ?thesis
    using pre Close_idempotent [of at_limit 2] Close_idempotent [of "snd (Close at_limit)" 0]
    unfolding three by simp
qed

subsection \<open>The decimal printer is injective\<close>

lemma digit_char_inj: "a < 10 \<Longrightarrow> b < 10 \<Longrightarrow> digit_char a = digit_char b \<Longrightarrow> a = b"
proof -
  assume a: "a < 10" and b: "b < 10" and e: "digit_char a = digit_char b"
  from e have "(of_char (char_of (48 + a)) :: nat) = of_char (char_of (48 + b))"
    by (simp add: digit_char_def)
  then have "(48 + a) mod 256 = (48 + b) mod 256" by simp
  with a b show "a = b" by simp
qed

lemma digit_char_not_minus: "d < 10 \<Longrightarrow> digit_char d \<noteq> CHR ''-''"
proof
  assume d: "d < 10" and e: "digit_char d = CHR ''-''"
  from e have "(of_char (char_of (48 + d)) :: nat) = of_char (CHR ''-'')"
    by (simp add: digit_char_def)
  then have "(48 + d) mod 256 = 45" by simp
  with d show False by simp
qed

lemma show_nat_not_Nil: "show_nat n \<noteq> []"
  by (subst show_nat.simps) simp

lemma show_nat_inj: "show_nat m = show_nat n \<Longrightarrow> m = n"
proof (induction m arbitrary: n rule: show_nat.induct)
  case (1 m)
  show ?case
  proof (cases "m < 10")
    case True
    show ?thesis
    proof (cases "n < 10")
      case n: True
      from "1.prems" True n have "digit_char m = digit_char n"
        by (simp add: show_nat.simps [of m] show_nat.simps [of n])
      with True n show ?thesis by (rule digit_char_inj)
    next
      case n: False
      from "1.prems" True n have "show_nat (n div 10) = []"
        by (simp add: show_nat.simps [of m] show_nat.simps [of n])
      then show ?thesis by (simp add: show_nat_not_Nil)
    qed
  next
    case False
    show ?thesis
    proof (cases "n < 10")
      case n: True
      from "1.prems" False n have "show_nat (m div 10) = []"
        by (simp add: show_nat.simps [of m] show_nat.simps [of n])
      then show ?thesis by (simp add: show_nat_not_Nil)
    next
      case n: False
      from "1.prems" False n
      have e: "show_nat (m div 10) = show_nat (n div 10)"
        and d: "digit_char (m mod 10) = digit_char (n mod 10)"
        by (simp_all add: show_nat.simps [of m] show_nat.simps [of n])
      from "1.IH" [OF False e] have q: "m div 10 = n div 10" .
      from d have r: "m mod 10 = n mod 10" by (intro digit_char_inj) simp_all
      from q r show ?thesis by (metis div_mult_mod_eq)
    qed
  qed
qed

lemma show_nat_hd: "hd (show_nat n) \<noteq> CHR ''-''"
proof (induction n rule: show_nat.induct)
  case (1 n)
  show ?case
  proof (cases "n < 10")
    case True
    then show ?thesis by (simp add: show_nat.simps [of n] digit_char_not_minus)
  next
    case False
    with "1.IH" show ?thesis
      by (simp add: show_nat.simps [of n] show_nat_not_Nil)
  qed
qed

lemma show_int_inj: "show_int i = show_int j \<Longrightarrow> i = j"
proof -
  assume e: "show_int i = show_int j"
  have neg: "show_nat a \<noteq> CHR ''-'' # s" for a s
    using show_nat_hd [of a] by (cases "show_nat a") auto
  show "i = j"
  proof (cases "i < 0"; cases "j < 0")
    assume "i < 0" "j < 0"
    with e have "nat (- i) = nat (- j)" by (simp add: show_int_def show_nat_inj)
    with \<open>i < 0\<close> \<open>j < 0\<close> show ?thesis by simp
  next
    assume "i < 0" "\<not> j < 0"
    with e neg [of "nat j" "show_nat (nat (- i))"] show ?thesis by (simp add: show_int_def)
  next
    assume "\<not> i < 0" "j < 0"
    with e neg [of "nat i" "show_nat (nat (- j))"] show ?thesis by (simp add: show_int_def)
  next
    assume "\<not> i < 0" "\<not> j < 0"
    with e have "nat i = nat j" by (simp add: show_int_def show_nat_inj)
    with \<open>\<not> i < 0\<close> \<open>\<not> j < 0\<close> show ?thesis by simp
  qed
qed

subsection \<open>The instances that \<^verbatim>\<open>nextPod\<close> creates\<close>

lemma nextPod_name:
  "map_option (\<lambda>p. Name (ObjectMeta p)) (lastSimulatedPod (snd (nextPod ifc c))) =
     Some (Name (ObjectMeta (simulatedPod c)) @ ''-'' @ show_int (simulated c))"
  by (simp add: nextPod_eq next_instance_def)

lemma seed_many_length: "length (fst (seed_many ifc n c)) = n"
proof (induction n arbitrary: c)
  case 0
  then show ?case by simp
next
  case (Suc n)
  obtain err c1 where np: "nextPod ifc c = (err, c1)" by (cases "nextPod ifc c")
  obtain pods c2 where sm: "seed_many ifc n c1 = (pods, c2)" by (cases "seed_many ifc n c1")
  from np have "lastSimulatedPod c1 = Some (next_instance ifc c)" by (auto simp: nextPod_eq)
  with np sm Suc.IH [of c1] show ?case by simp
qed

lemma seed_many_names:
  "- (2 ^ 63) \<le> simulated c \<Longrightarrow> simulated c + int n < 2 ^ 63 \<Longrightarrow>
   map (\<lambda>p. Name (ObjectMeta p)) (fst (seed_many ifc n c)) =
     map (\<lambda>k. Name (ObjectMeta (simulatedPod c)) @ ''-'' @ show_int (simulated c + int k)) [0..<n]"
proof (induction n arbitrary: c)
  case 0
  then show ?case by simp
next
  case (Suc n)
  obtain err c1 where np: "nextPod ifc c = (err, c1)" by (cases "nextPod ifc c")
  obtain pods c2 where sm: "seed_many ifc n c1 = (pods, c2)" by (cases "seed_many ifc n c1")
  note k = nextPod_keeps [OF np]
  have w: "wrap64 (simulated c + 1) = simulated c + 1"
    using Suc.prems by (intro wrap64_id) simp_all
  have s1: "simulated c1 = simulated c + 1" using k(4) w by simp
  from nextPod_name [of ifc c] np
  obtain p where lp: "lastSimulatedPod c1 = Some p"
    and nm: "Name (ObjectMeta p) = Name (ObjectMeta (simulatedPod c)) @ ''-'' @ show_int (simulated c)"
    by (cases "lastSimulatedPod c1") auto
  have "map (\<lambda>p. Name (ObjectMeta p)) pods =
     map (\<lambda>k. Name (ObjectMeta (simulatedPod c)) @ ''-'' @ show_int (simulated c + 1 + int k)) [0..<n]"
    using Suc.IH [of c1] Suc.prems sm by (simp add: k(2) s1)
  also have "\<dots> = map (\<lambda>k. Name (ObjectMeta (simulatedPod c)) @ ''-'' @ show_int (simulated c + int k))
                      (map Suc [0..<n])"
    by (simp add: algebra_simps)
  finally have tl: "map (\<lambda>p. Name (ObjectMeta p)) pods =
     map (\<lambda>k. Name (ObjectMeta (simulatedPod c)) @ ''-'' @ show_int (simulated c + int k))
       (map Suc [0..<n])" .
  have "[0..<Suc n] = 0 # map Suc [0..<n]"
    by (simp add: upt_conv_Cons map_Suc_upt del: upt_Suc)
  with np sm lp nm tl show ?case by (simp del: upt_Suc)
qed

text \<open>
  Claim C8. The pod that \<^verbatim>\<open>nextPod\<close> creates is the template with four things changed:
  the name is the template's name, a hyphen and the counter in decimal; the UID is the
  identifier just drawn from the generator; \<^verbatim>\<open>Spec.NodeName\<close> is empty and
  \<^verbatim>\<open>Spec.SchedulerName\<close> is the scheduler's name; and the annotations are the template's
  with \<^verbatim>\<open>cc.kubernetes.io/provisioned-by\<close> mapped to the scheduler's name. That pod is what
  is passed to \<^verbatim>\<open>Create\<close> and kept as the last simulated pod, and the counter, which \<^verbatim>\<open>New\<close>
  sets to 0, goes up by one as a 64-bit integer does. So \<open>n\<close> seedings in a row create \<open>n\<close>
  pods, and as long as the counter stays below \<open>2 ^ 63\<close> their names carry the successive
  values of the counter and are pairwise distinct.
\<close>

theorem nextPod_instances:
  "nextPod ifc c =
     (let inst = (simulatedPod c)
            \<lparr>Spec := (Spec (simulatedPod c))
               \<lparr>NodeName := [], SchedulerName := defaultSchedulerName c\<rparr>,
             ObjectMeta := (ObjectMeta (simulatedPod c))
               \<lparr>Name := Name (ObjectMeta (simulatedPod c)) @ ''-'' @ show_int (simulated c),
                UID := fst (uuid_NewV4 ifc (world c)),
                Annotations := Some ((case Annotations (ObjectMeta (simulatedPod c)) of
                                        None \<Rightarrow> Map.empty | Some m \<Rightarrow> m)
                                     (''cc.kubernetes.io/provisioned-by'' \<mapsto> defaultSchedulerName c))\<rparr>\<rparr>;
          created = Pods_Create ifc inst (snd (uuid_NewV4 ifc (world c)))
      in (fst created,
          c\<lparr>world := snd created,
            simulated := (simulated c + 1 + 2 ^ 63) mod 2 ^ 64 - 2 ^ 63,
            lastSimulatedPod := Some inst\<rparr>)) \<and>
   (- (2 ^ 63) \<le> simulated c \<and> simulated c + 1 < 2 ^ 63 \<longrightarrow>
      simulated (snd (nextPod ifc c)) = simulated c + 1) \<and>
   simulated (New t N w :: ('s, 'r) ClusterCapacity) = 0 \<and>
   length (fst (seed_many ifc n c)) = n \<and>
   (- (2 ^ 63) \<le> simulated c \<and> simulated c + int n < 2 ^ 63 \<longrightarrow>
      map (\<lambda>p. Name (ObjectMeta p)) (fst (seed_many ifc n c)) =
        map (\<lambda>k. Name (ObjectMeta (simulatedPod c)) @ ''-'' @ show_int (simulated c + int k)) [0..<n] \<and>
      distinct (map (\<lambda>p. Name (ObjectMeta p)) (fst (seed_many ifc n c))))"
proof (intro conjI impI)
  show "nextPod ifc c =
     (let inst = (simulatedPod c)
            \<lparr>Spec := (Spec (simulatedPod c))
               \<lparr>NodeName := [], SchedulerName := defaultSchedulerName c\<rparr>,
             ObjectMeta := (ObjectMeta (simulatedPod c))
               \<lparr>Name := Name (ObjectMeta (simulatedPod c)) @ ''-'' @ show_int (simulated c),
                UID := fst (uuid_NewV4 ifc (world c)),
                Annotations := Some ((case Annotations (ObjectMeta (simulatedPod c)) of
                                        None \<Rightarrow> Map.empty | Some m \<Rightarrow> m)
                                     (''cc.kubernetes.io/provisioned-by'' \<mapsto> defaultSchedulerName c))\<rparr>\<rparr>;
          created = Pods_Create ifc inst (snd (uuid_NewV4 ifc (world c)))
      in (fst created,
          c\<lparr>world := snd created,
            simulated := (simulated c + 1 + 2 ^ 63) mod 2 ^ 64 - 2 ^ 63,
            lastSimulatedPod := Some inst\<rparr>))"
    using nextPod_eq [of ifc c]
    by (simp add: next_instance_def podProvisioner_def wrap64_def Let_def)
  show "simulated (New t N w :: ('s, 'r) ClusterCapacity) = 0" by (simp add: New_def)
  show "length (fst (seed_many ifc n c)) = n" by (rule seed_many_length)
next
  assume "- (2 ^ 63) \<le> simulated c \<and> simulated c + 1 < 2 ^ 63"
  then have "wrap64 (simulated c + 1) = simulated c + 1" by (intro wrap64_id) simp_all
  then show "simulated (snd (nextPod ifc c)) = simulated c + 1" by (simp add: nextPod_eq)
next
  assume h: "- (2 ^ 63) \<le> simulated c \<and> simulated c + int n < 2 ^ 63"
  then show names: "map (\<lambda>p. Name (ObjectMeta p)) (fst (seed_many ifc n c)) =
     map (\<lambda>k. Name (ObjectMeta (simulatedPod c)) @ ''-'' @ show_int (simulated c + int k)) [0..<n]"
    by (intro seed_many_names) simp_all
  have "inj_on (\<lambda>k. Name (ObjectMeta (simulatedPod c)) @ ''-'' @ show_int (simulated c + int k)) (set [0..<n])"
    by (rule inj_onI) (auto dest: show_int_inj)
  then show "distinct (map (\<lambda>p. Name (ObjectMeta p)) (fst (seed_many ifc n c)))"
    unfolding names by (simp add: distinct_map)
qed

text \<open>Three seedings of the example: the names, the identifiers and the cleared node name.\<close>

lemma three_instances:
  "map (\<lambda>p. (Name (ObjectMeta p), UID (ObjectMeta p), NodeName (Spec p)))
     (fst (seed_many tracker_ifc (Suc (Suc (Suc 0)))
             (New small_pod 0 one_node :: (tracker, unit) ClusterCapacity))) =
   [(''small-0'', ''uuid-0'', []), (''small-1'', ''uuid-1'', []), (''small-2'', ''uuid-2'', [])]"
  by (simp add: run_defs)

theorem nextPod_instances_witness:
  "- (2 ^ 63) \<le> simulated (New small_pod 0 one_node :: (tracker, unit) ClusterCapacity) \<and>
   simulated (New small_pod 0 one_node :: (tracker, unit) ClusterCapacity) + int (Suc (Suc (Suc 0))) < 2 ^ 63 \<and>
   simulated (snd (nextPod tracker_ifc (New small_pod 0 one_node :: (tracker, unit) ClusterCapacity))) = 1 \<and>
   map (\<lambda>p. Name (ObjectMeta p))
     (fst (seed_many tracker_ifc (Suc (Suc (Suc 0)))
        (New small_pod 0 one_node :: (tracker, unit) ClusterCapacity))) =
     [''small-0'', ''small-1'', ''small-2''] \<and>
   distinct (map (\<lambda>p. Name (ObjectMeta p))
     (fst (seed_many tracker_ifc (Suc (Suc (Suc 0)))
        (New small_pod 0 one_node :: (tracker, unit) ClusterCapacity))))"
proof -
  let ?c = "New small_pod 0 one_node :: (tracker, unit) ClusterCapacity"
  have s: "simulated ?c = 0" "Name (ObjectMeta (simulatedPod ?c)) = ''small''"
    by (simp_all add: New_def small_pod_def)
  have d: "show_int 0 = ''0''" "show_int 1 = ''1''" "show_int 2 = ''2''"
    by (simp_all add: show_int_def show_nat_digit digit_chars)
  have u: "[0..<Suc (Suc (Suc 0))] = [0, Suc 0, Suc (Suc 0)]" by (simp add: upt_rec)
  show ?thesis
    using nextPod_instances [of tracker_ifc ?c small_pod 0 one_node "Suc (Suc (Suc 0))"]
    by (simp add: s d u del: seed_many.simps) blast
qed

subsection \<open>The report\<close>

lemma Report_again: "report c = Some r \<Longrightarrow> Report GetReport c = (r, c)"
  by (simp add: Report_def)

lemma Report_first:
  "report c = None \<Longrightarrow>
     Report GetReport c =
       ((GetReport [simulatedPod c] (status c))\<lparr>Replicas := int32 (maxSimulated c)\<rparr>,
        c\<lparr>report := Some ((GetReport [simulatedPod c] (status c))\<lparr>Replicas := int32 (maxSimulated c)\<rparr>)\<rparr>)"
  by (simp add: Report_def Let_def)

lemma Report_twice: "Report GetReport (snd (Report GetReport c)) = Report GetReport c"
  by (cases "report c") (simp_all add: Report_def Let_def)

lemma Report_times_eq:
  "Report_times GetReport (Suc n) c =
     (replicate (Suc n) (fst (Report GetReport c)), snd (Report GetReport c))"
proof (induction n arbitrary: c)
  case 0
  then show ?case by (simp add: split_beta)
next
  case (Suc n)
  have "Report_times GetReport (Suc (Suc n)) c =
          (fst (Report GetReport c) # fst (Report_times GetReport (Suc n) (snd (Report GetReport c))),
           snd (Report_times GetReport (Suc n) (snd (Report GetReport c))))"
    by (simp add: split_beta Let_def)
  also have "\<dots> = (replicate (Suc (Suc n)) (fst (Report GetReport c)), snd (Report GetReport c))"
    unfolding Suc.IH by (simp add: Report_twice)
  finally show ?case .
qed

lemma sint_int32: "- (2 ^ 31) \<le> x \<Longrightarrow> x < 2 ^ 31 \<Longrightarrow> sint (int32 x) = x"
  unfolding int32_def by (simp add: sint_sbintrunc' signed_take_bit_int_eq_self)

text \<open>
  Claim C9, as amended. The first call of \<^verbatim>\<open>Report\<close> builds the report with \<^verbatim>\<open>GetReport\<close>
  from the list that holds only the template pod and from the status, sets
  \<^verbatim>\<open>Spec.Replicas\<close> to \<^verbatim>\<open>int32(maxSimulated)\<close> and keeps the report; that value is the limit
  itself when the limit fits in 32 bits. Every later call returns the same report and
  leaves the controller as it is, so any number of calls yields that report each time.
\<close>

theorem Report_memoized:
  "(report c = None \<longrightarrow>
      Report GetReport c =
        ((GetReport [simulatedPod c] (status c))\<lparr>Replicas := int32 (maxSimulated c)\<rparr>,
         c\<lparr>report := Some ((GetReport [simulatedPod c] (status c))
                            \<lparr>Replicas := int32 (maxSimulated c)\<rparr>)\<rparr>)) \<and>
   (report c = None \<and> - (2 ^ 31) \<le> maxSimulated c \<and> maxSimulated c < 2 ^ 31 \<longrightarrow>
      sint (Replicas (fst (Report GetReport c))) = maxSimulated c) \<and>
   (report c = Some r \<longrightarrow> Report GetReport c = (r, c)) \<and>
   Report GetReport (snd (Report GetReport c)) = (fst (Report GetReport c), snd (Report GetReport c)) \<and>
   Report_times GetReport (Suc n) c =
     (replicate (Suc n) (fst (Report GetReport c)), snd (Report GetReport c))"
proof (intro conjI impI)
  assume "report c = None"
  then show "Report GetReport c =
        ((GetReport [simulatedPod c] (status c))\<lparr>Replicas := int32 (maxSimulated c)\<rparr>,
         c\<lparr>report := Some ((GetReport [simulatedPod c] (status c))
                            \<lparr>Replicas := int32 (maxSimulated c)\<rparr>)\<rparr>)"
    by (rule Report_first)
next
  assume "report c = None \<and> - (2 ^ 31) \<le> maxSimulated c \<and> maxSimulated c < 2 ^ 31"
  then show "sint (Replicas (fst (Report GetReport c))) = maxSimulated c"
    by (simp add: Report_first sint_int32)
next
  assume "report c = Some r"
  then show "Report GetReport c = (r, c)" by (rule Report_again)
next
  show "Report GetReport (snd (Report GetReport c)) = (fst (Report GetReport c), snd (Report GetReport c))"
    by (simp add: Report_twice)
  show "Report_times GetReport (Suc n) c =
     (replicate (Suc n) (fst (Report GetReport c)), snd (Report GetReport c))"
    by (rule Report_times_eq)
qed

theorem Report_memoized_witness:
  "report (New small_pod 5 one_node :: (tracker, Pod list \<times> RunStatus) ClusterCapacity) = None \<and>
   - (2 ^ 31) \<le> (5::int) \<and> (5::int) < 2 ^ 31 \<and>
   fst (Report plain_report (New small_pod 5 one_node)) =
     \<lparr>Replicas = 5, review = ([small_pod], \<lparr>Pods = [], StopReason = []\<rparr>)\<rparr> \<and>
   sint (Replicas (fst (Report plain_report (New small_pod 5 one_node
           :: (tracker, Pod list \<times> RunStatus) ClusterCapacity)))) = 5 \<and>
   report (snd (Report plain_report (New small_pod 5 one_node
           :: (tracker, Pod list \<times> RunStatus) ClusterCapacity))) =
     Some \<lparr>Replicas = 5, review = ([small_pod], \<lparr>Pods = [], StopReason = []\<rparr>)\<rparr> \<and>
   Report plain_report (snd (Report plain_report (New small_pod 5 one_node
           :: (tracker, Pod list \<times> RunStatus) ClusterCapacity))) =
     (\<lparr>Replicas = 5, review = ([small_pod], \<lparr>Pods = [], StopReason = []\<rparr>)\<rparr>,
      snd (Report plain_report (New small_pod 5 one_node)))"
proof -
  let ?c = "New small_pod 5 one_node :: (tracker, Pod list \<times> RunStatus) ClusterCapacity"
  have n: "report ?c = None" by (simp add: New_def)
  have f: "simulatedPod ?c = small_pod" "status ?c = \<lparr>Pods = [], StopReason = []\<rparr>"
    "maxSimulated ?c = 5"
    by (simp_all add: New_def)
  have i: "int32 5 = 5" by (simp add: int32_def)
  show ?thesis
    using n f i
      Report_memoized [of ?c plain_report
        "\<lparr>Replicas = 5, review = ([small_pod], \<lparr>Pods = [], StopReason = []\<rparr>)\<rparr>" 0]
      Report_memoized [of "snd (Report plain_report ?c)" plain_report
        "\<lparr>Replicas = 5, review = ([small_pod], \<lparr>Pods = [], StopReason = []\<rparr>)\<rparr>" 0]
    by (simp add: plain_report_def)
qed

text \<open>With the limit \<open>2 ^ 31\<close> the replicas of the report are not the limit.\<close>

theorem Report_replicas_counterexample:
  "maxSimulated (New small_pod 2147483648 one_node
      :: (tracker, Pod list \<times> RunStatus) ClusterCapacity) = 2147483648 \<and>
   sint (Replicas (fst (Report plain_report (New small_pod 2147483648 one_node
      :: (tracker, Pod list \<times> RunStatus) ClusterCapacity)))) = - 2147483648"
  by (simp add: Report_def New_def int32_def Let_def plain_report_def)

subsection \<open>Cleaning the disk cache\<close>

text \<open>
  Claim C10. \<^verbatim>\<open>Clean\<close> returns \<^verbatim>\<open>nil\<close> for every key and leaves the file system as it is; so
  what \<^verbatim>\<open>Get\<close> reads after \<^verbatim>\<open>Clean\<close> is what it read before, in particular the entry that
  \<^verbatim>\<open>Set\<close> has written.
\<close>

theorem Clean_does_nothing:
  "Clean d key fs = (None, fs) \<and>
   Get os d key' (snd (Clean d key fs)) = Get os d key' fs \<and>
   Get os d key (snd (Clean d key (snd (Set os d key data fs)))) =
     Get os d key (snd (Set os d key data fs))"
  by (simp add: Clean_def)

end
